theory Spec2Isabelle
  imports Main "HOL-Library.Word" "HOL-Library.Sublist"
begin

unbundle bit_operations_syntax

section \<open>Constants of the platform headers\<close>

text \<open>
  Signal numbers and error numbers are C \<open>int\<close>s; the values are those of
  Linux on x86-64 (\<open>signal.h\<close>, \<open>errno.h\<close>, \<open>stdlib.h\<close>).
\<close>

definition SIGKILL :: int where "SIGKILL = 9"
definition SIGTERM :: int where "SIGTERM = 15"
definition SIGCHLD :: int where "SIGCHLD = 17"
definition SIGCONT :: int where "SIGCONT = 18"
definition SIGSTOP :: int where "SIGSTOP = 19"
definition SIGTSTP :: int where "SIGTSTP = 20"
definition SIGTTIN :: int where "SIGTTIN = 21"
definition SIGTTOU :: int where "SIGTTOU = 22"
definition SIGURG :: int where "SIGURG = 23"
definition SIGWINCH :: int where "SIGWINCH = 28"

definition EINTR :: int where "EINTR = 4"
definition ECHILD :: int where "ECHILD = 10"
definition EAGAIN :: int where "EAGAIN = 11"
definition EINVAL :: int where "EINVAL = 22"

definition EXIT_FAILURE :: int where "EXIT_FAILURE = 1"

section \<open>Fatal assertions\<close>

text \<open>
  Modelled from the spec: the macro \<open>JASSERT\<close> of \<open>jalib/jassert.h\<close>, which
  is not part of the sources at hand. A failed assertion prints one diagnostic
  line and terminates the process; nothing after it runs. The model returns
  \<open>Inl (Fatal msg)\<close> at that point, \<open>msg\<close> being the text of the assertion.
  The macros \<open>JNOTE\<close> and \<open>JTRACE\<close> only write to the log and are left out.
\<close>

datatype error = Fatal string

section \<open>Signal state of the process (dmtcp\_init.cpp)\<close>

text \<open>
  \<open>sigset_t\<close> is a set of signal numbers. \<open>struct sigaction\<close> keeps the
  handler, the mask that is blocked while the handler runs, and the flags.
\<close>

datatype sighandler = SIG_DFL | SIG_IGN | Handler nat

record sigaction_t =
  sa_handler :: sighandler
  sa_mask :: "int set"
  sa_flags :: int

text \<open>
  The part of the kernel's per-process signal state the supervisor touches: the
  blocked mask, the set of pending signals, and the dispositions of
  \<open>SIGTTIN\<close> and \<open>SIGTTOU\<close>.
\<close>

record sigstate =
  blocked :: "int set"
  pending :: "int set"
  sigttin_disp :: sigaction_t
  sigttou_disp :: sigaction_t

text \<open>
  \<open>signal_configuration_t\<close>: the struct holds three pointers; the record holds
  the three objects they point to.
\<close>

record signal_configuration_t =
  sigmask :: "int set"
  sigttin_action :: sigaction_t
  sigttou_action :: sigaction_t

text \<open>\<open>memset(&act, 0, sizeof act)\<close>: a null handler is \<open>SIG_DFL\<close>.\<close>

definition zero_sigaction :: sigaction_t where
  "zero_sigaction = \<lparr>sa_handler = SIG_DFL, sa_mask = {}, sa_flags = 0\<rparr>"

subsection \<open>The system calls\<close>

definition valid_signo :: "int \<Rightarrow> bool" where
  "valid_signo sg = (1 \<le> sg \<and> sg \<le> 64)"

definition sigemptyset :: "int \<times> int set" where
  "sigemptyset = (0, {})"

text \<open>\<open>sigaddset\<close> fails with \<open>EINVAL\<close> on a number that is not a signal.\<close>

definition sigaddset :: "int set \<Rightarrow> int \<Rightarrow> int \<times> int set" where
  "sigaddset st sg = (if valid_signo sg then (0, insert sg st) else (-1, st))"

text \<open>
  \<open>sigprocmask(SIG_SETMASK, new, old)\<close>: stores the mask in effect in \<open>old\<close>
  and installs \<open>new\<close>; the kernel silently leaves \<open>SIGKILL\<close> and
  \<open>SIGSTOP\<close> unblocked. Result: return value, old mask, new state.
\<close>

definition sigprocmask_SETMASK :: "int set \<Rightarrow> sigstate \<Rightarrow> int \<times> int set \<times> sigstate" where
  "sigprocmask_SETMASK new s =
     (0, blocked s, s\<lparr>blocked := new - {SIGKILL, SIGSTOP}\<rparr>)"

text \<open>
  \<open>sigaction(sig, act, NULL)\<close>: installs a disposition. The dispositions of
  \<open>SIGKILL\<close> and \<open>SIGSTOP\<close> cannot be changed (\<open>EINVAL\<close>); those of signals
  other than \<open>SIGTTIN\<close> and \<open>SIGTTOU\<close> are not tracked by \<open>sigstate\<close>.
\<close>

definition sigaction_install :: "int \<Rightarrow> sigaction_t \<Rightarrow> sigstate \<Rightarrow> int \<times> sigstate" where
  "sigaction_install sg act s =
     (if \<not> valid_signo sg \<or> sg = SIGKILL \<or> sg = SIGSTOP then (-1, s)
      else if sg = SIGTTIN then (0, s\<lparr>sigttin_disp := act\<rparr>)
      else if sg = SIGTTOU then (0, s\<lparr>sigttou_disp := act\<rparr>)
      else (0, s))"

text \<open>
  A signal sent to the process: a blocked signal becomes pending and stays so
  until it is accepted; an unblocked one is handled at once by its disposition
  (for \<open>SIGCHLD\<close> the default is to discard it) and never becomes pending.
\<close>

definition kernel_raise :: "int \<Rightarrow> sigstate \<Rightarrow> sigstate" where
  "kernel_raise sg s =
     (if sg \<in> blocked s then s\<lparr>pending := insert sg (pending s)\<rparr> else s)"

subsection \<open>restore\_signals and configure\_signals\<close>

definition restore_signals :: "signal_configuration_t \<Rightarrow> sigstate \<Rightarrow> error + (int \<times> sigstate)" where
  "restore_signals sigconf s =
     (case sigprocmask_SETMASK (sigmask sigconf) s of (r1, _, s1) \<Rightarrow>
        if r1 \<noteq> 0 then Inl (Fatal ''!sigprocmask(SIG_SETMASK, sigconf_ptr->sigmask_ptr, NULL)'')
        else case sigaction_install SIGTTIN (sigttin_action sigconf) s1 of (r2, s2) \<Rightarrow>
          if r2 \<noteq> 0 then Inl (Fatal ''!sigaction(SIGTTIN, sigconf_ptr->sigttin_action_ptr, NULL)'')
          else case sigaction_install SIGTTOU (sigttou_action sigconf) s2 of (r3, s3) \<Rightarrow>
            if r3 \<noteq> 0 then Inl (Fatal ''!sigaction(SIGTTOU, sigconf_ptr->sigttou_action_ptr, NULL)'')
            else Inr (0, s3))"

text \<open>
  \<open>configure_signals\<close> writes \<open>*parent_sigset_ptr\<close> before reading it, so the
  model returns the set instead of taking it. Result: return value, the
  parent's signal set, the configuration as left behind, the new signal state.
\<close>

definition configure_signals ::
  "signal_configuration_t \<Rightarrow> sigstate \<Rightarrow>
     error + (int \<times> int set \<times> signal_configuration_t \<times> sigstate)" where
  "configure_signals sigconf s =
     (case sigemptyset of (r1, set1) \<Rightarrow>
        if r1 \<noteq> 0 then Inl (Fatal ''!sigemptyset(parent_sigset_ptr)'')
        else case sigaddset set1 SIGCHLD of (r2, parent_sigset) \<Rightarrow>
          if r2 \<noteq> 0 then Inl (Fatal ''!sigaddset(parent_sigset_ptr, SIGCHLD)'')
          else case sigprocmask_SETMASK parent_sigset s of (r3, old, s') \<Rightarrow>
            if r3 \<noteq> 0 then Inl (Fatal ''!sigprocmask(SIG_SETMASK, parent_sigset_ptr, sigconf_ptr->sigmask_ptr)'')
            else Inr (0, parent_sigset, sigconf\<lparr>sigmask := old\<rparr>, s'))"

text \<open>
  The configuration \<open>dmtcp_init_main\<close> builds: both actions zeroed by
  \<open>memset\<close>; \<open>child_sigset\<close> is not initialised in the source and is
  overwritten by \<open>configure_signals\<close> before anything reads it.
\<close>

definition child_sigconf :: signal_configuration_t where
  "child_sigconf =
     \<lparr>sigmask = {}, sigttin_action = zero_sigaction, sigttou_action = zero_sigaction\<rparr>"

text \<open>Configure, then restore from the configuration that configure left.\<close>

definition configure_then_restore :: "signal_configuration_t \<Rightarrow> sigstate \<Rightarrow> error + sigstate" where
  "configure_then_restore sigconf s =
     (case configure_signals sigconf s of
        Inl e \<Rightarrow> Inl e
      | Inr (_, _, sigconf', s') \<Rightarrow>
          (case restore_signals sigconf' s' of Inl e \<Rightarrow> Inl e | Inr (_, s'') \<Rightarrow> Inr s''))"

text \<open>No process ever has \<open>SIGKILL\<close> or \<open>SIGSTOP\<close> blocked.\<close>

definition mask_ok :: "sigstate \<Rightarrow> bool" where
  "mask_ok s = (SIGKILL \<notin> blocked s \<and> SIGSTOP \<notin> blocked s)"

section \<open>The supervisor loop (dmtcp\_init.cpp)\<close>

subsection \<open>The kernel as the supervisor sees it\<close>

text \<open>
  The kernel's table of the supervisor's children. A child runs, or has
  terminated and waits to be collected with its 32-bit wait status.
\<close>

datatype pstate = Running | Zombie "32 word"

text \<open>
  What happens around one timed wait of the supervisor: nothing; some children
  terminate (pid and wait status of each); a signal is sent to the supervisor;
  the wait is interrupted; the wait fails with some other error number.
\<close>

datatype tick = Quiet | Exits "(int \<times> 32 word) list" | Sent int | Interrupt | Fault int

record world =
  sigs :: sigstate
  children :: "(int \<times> pstate) list"
  schedule :: "tick list"

text \<open>A running child terminates: it becomes a zombie and the parent is sent \<open>SIGCHLD\<close>.\<close>

definition child_exits :: "int \<times> 32 word \<Rightarrow> world \<Rightarrow> world" where
  "child_exits c w =
     (if (fst c, Running) \<in> set (children w)
      then w\<lparr>children := map (\<lambda>e. if e = (fst c, Running) then (fst c, Zombie (snd c)) else e)
                              (children w),
             sigs := kernel_raise SIGCHLD (sigs w)\<rparr>
      else w)"

text \<open>
  The end of a timed wait on \<open>st\<close>: the lowest pending signal of \<open>st\<close> is
  accepted (no longer pending) and returned with its number in \<open>si_signo\<close>;
  with none pending the call returns \<open>-1\<close> and the error number \<open>e\<close>. Result:
  return value, \<open>errno\<close>, \<open>si_signo\<close>, new world.
\<close>

definition accept_signal :: "int set \<Rightarrow> int \<Rightarrow> world \<Rightarrow> int \<times> int \<times> int \<times> world" where
  "accept_signal st e w =
     (let ready = pending (sigs w) \<inter> st
      in if ready = {} then (-1, e, 0, w)
         else (Min ready, 0, Min ready,
               w\<lparr>sigs := (sigs w)\<lparr>pending := pending (sigs w) - {Min ready}\<rparr>\<rparr>))"

text \<open>
  \<open>sigtimedwait(set, &sig, &ts)\<close> with the one-second timeout \<open>ts\<close>: the next
  tick of the schedule happens, then the wait ends. A timeout is \<open>EAGAIN\<close>.
  With the schedule used up nothing happens any more.
\<close>

definition sigtimedwait :: "int set \<Rightarrow> world \<Rightarrow> int \<times> int \<times> int \<times> world" where
  "sigtimedwait st w =
     (case schedule w of
        [] \<Rightarrow> accept_signal st EAGAIN w
      | t # ts \<Rightarrow>
          (case t of
             Quiet \<Rightarrow> accept_signal st EAGAIN (w\<lparr>schedule := ts\<rparr>)
           | Exits cs \<Rightarrow> accept_signal st EAGAIN (fold child_exits cs (w\<lparr>schedule := ts\<rparr>))
           | Sent sg \<Rightarrow>
               accept_signal st EAGAIN (w\<lparr>schedule := ts, sigs := kernel_raise sg (sigs w)\<rparr>)
           | Interrupt \<Rightarrow> accept_signal st EINTR (w\<lparr>schedule := ts\<rparr>)
           | Fault e \<Rightarrow> accept_signal st e (w\<lparr>schedule := ts\<rparr>)))"

fun first_zombie :: "(int \<times> pstate) list \<Rightarrow> (int \<times> 32 word) option" where
  "first_zombie [] = None"
| "first_zombie ((p, Zombie st) # ps) = Some (p, st)"
| "first_zombie ((p, Running) # ps) = first_zombie ps"

text \<open>
  \<open>waitpid(-1, &status, WNOHANG)\<close>: with no child at all \<open>-1\<close> and
  \<open>ECHILD\<close>; with a terminated child its pid and status, and the child
  leaves the table; otherwise \<open>0\<close>. Result: return value, \<open>errno\<close>, status,
  new world.
\<close>

definition waitpid_any_WNOHANG :: "world \<Rightarrow> int \<times> int \<times> 32 word \<times> world" where
  "waitpid_any_WNOHANG w =
     (if children w = [] then (-1, ECHILD, 0, w)
      else case first_zombie (children w) of
             None \<Rightarrow> (0, 0, 0, w)
           | Some (p, st) \<Rightarrow> (p, 0, st, w\<lparr>children := remove1 (p, Zombie st) (children w)\<rparr>))"

subsection \<open>wait\_and\_forward\_signal, reap\_zombies, dmtcp\_init\_main\<close>

definition wait_and_forward_signal :: "int set \<Rightarrow> int \<Rightarrow> world \<Rightarrow> (error + int) \<times> world" where
  "wait_and_forward_signal parent_sigset child_pid w =
     (case sigtimedwait parent_sigset w of (ret, errno, si_signo, w') \<Rightarrow>
        if ret = -1 then
          (if errno = EAGAIN then (Inr 0, w')
           else if errno = EINTR then (Inr 0, w')
           else (Inl (Fatal ''Unexpected error in sigtimedwait''), w'))
        else
          (if si_signo = SIGCHLD then (Inr 0, w')
           else (Inl (Fatal ''unknown signal''), w')))"

text \<open>
  \<open>reap_zombies\<close> returns its return value together with
  \<open>*child_exitcode_ptr\<close> as it leaves it. The status that \<open>waitpid\<close> stores
  in \<open>current_status\<close> is never read.
\<close>

function reap_zombies :: "int \<Rightarrow> int \<Rightarrow> world \<Rightarrow> (error + int \<times> int) \<times> world" where
  "reap_zombies child_pid child_exitcode w =
     (let r = waitpid_any_WNOHANG w; current_pid = fst r; errno = fst (snd r);
          w' = snd (snd (snd r))
      in if current_pid = -1 then
           (if errno = ECHILD then (Inr (0, child_exitcode), w')
            else (Inl (Fatal ''Error while waiting for pids''), w'))
         else if current_pid = 0 then (Inr (0, child_exitcode), w')
         else reap_zombies child_pid child_exitcode w')"
  by pat_completeness auto
termination
proof (relation "measure (\<lambda>(child_pid, child_exitcode, w). length (children w))")
  show "wf (measure (\<lambda>(child_pid, child_exitcode, w). length (children w)))"
    by simp
next
  fix child_pid child_exitcode :: int and w :: world
  fix r x xa xb
  assume r: "r = waitpid_any_WNOHANG w" and x: "x = fst r" and xb: "xb = snd (snd (snd r))"
    and n1: "x \<noteq> - 1" and n0: "x \<noteq> 0"
  have "length (children xb) < length (children w)"
  proof (cases "children w = []")
    case True
    with r x n1 show ?thesis by (simp add: waitpid_any_WNOHANG_def)
  next
    case False
    show ?thesis
    proof (cases "first_zombie (children w)")
      case None
      with False r x n0 show ?thesis by (simp add: waitpid_any_WNOHANG_def)
    next
      case (Some z)
      obtain p st where z: "z = (p, st)" by (cases z)
      have "first_zombie ps = Some (p, st) \<Longrightarrow> (p, Zombie st) \<in> set ps" for ps
        by (induction ps rule: first_zombie.induct) auto
      with Some z have "(p, Zombie st) \<in> set (children w)" by simp
      then have "length (remove1 (p, Zombie st) (children w)) < length (children w)"
        by (simp add: length_remove1) (cases "children w", auto)
      with False Some z r xb show ?thesis by (simp add: waitpid_any_WNOHANG_def)
    qed
  qed
  then show "((child_pid, child_exitcode, xb), (child_pid, child_exitcode, w))
      \<in> measure (\<lambda>(child_pid, child_exitcode, w). length (children w))"
    by simp
qed

declare reap_zombies.simps [simp del]

text \<open>
  The loop of \<open>dmtcp_init_main\<close>. It has no bound in the source; \<open>n\<close> bounds
  the number of iterations, and \<open>None\<close> says that the loop is still running
  after \<open>n\<close> of them.
\<close>

fun supervise :: "nat \<Rightarrow> int set \<Rightarrow> int \<Rightarrow> int \<Rightarrow> world \<Rightarrow> ((error + int) \<times> world) option" where
  "supervise 0 parent_sigset child_pid child_exitcode w = None"
| "supervise (Suc n) parent_sigset child_pid child_exitcode w =
     (case wait_and_forward_signal parent_sigset child_pid w of
        (Inl e, w1) \<Rightarrow> Some (Inl e, w1)
      | (Inr r1, w1) \<Rightarrow>
          if r1 \<noteq> 0 then Some (Inr 1, w1)
          else (case reap_zombies child_pid child_exitcode w1 of
                  (Inl e, w2) \<Rightarrow> Some (Inl e, w2)
                | (Inr (r2, child_exitcode'), w2) \<Rightarrow>
                    if r2 \<noteq> 0 then Some (Inr 1, w2)
                    else if child_exitcode' \<noteq> -1 then Some (Inr child_exitcode', w2)
                    else supervise n parent_sigset child_pid child_exitcode' w2))"

definition dmtcp_init_main :: "nat \<Rightarrow> world \<Rightarrow> ((error + int) \<times> world) option" where
  "dmtcp_init_main n w =
     (let child_pid = -1; child_exitcode = -1
      in case configure_signals child_sigconf (sigs w) of
           Inl e \<Rightarrow> Some (Inl e, w)
         | Inr (r, parent_sigset, sigconf', s') \<Rightarrow>
             if r \<noteq> 0 then Some (Inr 1, w\<lparr>sigs := s'\<rparr>)
             else supervise n parent_sigset child_pid child_exitcode (w\<lparr>sigs := s'\<rparr>))"

section \<open>Parent/child handoff (util\_init.cpp)\<close>

text \<open>
  The wait-status macros of \<open>sys/wait.h\<close> on the 32-bit status word.
  \<open>WIFSIGNALED\<close> converts to \<open>signed char\<close> and shifts arithmetically.
\<close>

definition WEXITSTATUS :: "32 word \<Rightarrow> int" where
  "WEXITSTATUS status = uint (drop_bit 8 (status AND 0xff00))"

definition WTERMSIG :: "32 word \<Rightarrow> int" where
  "WTERMSIG status = uint (status AND 0x7f)"

definition WIFEXITED :: "32 word \<Rightarrow> bool" where
  "WIFEXITED status = (WTERMSIG status = 0)"

definition WIFSIGNALED :: "32 word \<Rightarrow> bool" where
  "WIFSIGNALED status =
     (0 < drop_bit 1 (sint (ucast ((status AND 0x7f) + 1) :: 8 word)))"

definition WIFSTOPPED :: "32 word \<Rightarrow> bool" where
  "WIFSTOPPED status = (status AND 0xff = 0x7f)"

text \<open>
  What the parent sees of the rest of the system: its own pid, what the
  successive calls of \<open>waitpid(child_pid, &status, WUNTRACED)\<close> report (a pid
  with its status, or a failure with its error number), and the signals it has
  sent so far, oldest first. For the signals it sends itself the kernel looks
  at the parent's own signal state: the signals it blocks and the disposition
  of each signal.
\<close>

datatype wait_event = Reported int "32 word" | Failed int

record handoff_env =
  self_pid :: int
  wait_script :: "wait_event list"
  kills :: "(int \<times> int) list"
  self_blocked :: "int set"
  self_disp :: "int \<Rightarrow> sighandler"

text \<open>
  A failing \<open>waitpid\<close> leaves \<open>status\<close> as it was. With nothing left to report
  the call blocks for ever: \<open>None\<close>.
\<close>

definition waitpid_WUNTRACED ::
  "int \<Rightarrow> 32 word \<Rightarrow> handoff_env \<Rightarrow> (int \<times> 32 word \<times> handoff_env) option" where
  "waitpid_WUNTRACED pid status env =
     (case wait_script env of
        [] \<Rightarrow> None
      | Reported p st # evs \<Rightarrow> Some (p, st, env\<lparr>wait_script := evs\<rparr>)
      | Failed e # evs \<Rightarrow> Some (-1, status, env\<lparr>wait_script := evs\<rparr>))"

definition kill_proc :: "int \<Rightarrow> int \<Rightarrow> handoff_env \<Rightarrow> handoff_env" where
  "kill_proc pid sg env = env\<lparr>kills := kills env @ [(pid, sg)]\<rparr>"

text \<open>The \<open>while (1)\<close> loop of \<open>continueAsChild\<close>; it returns \<open>status\<close> at the \<open>break\<close>.\<close>

function wait_child :: "int \<Rightarrow> int \<Rightarrow> 32 word \<Rightarrow> handoff_env \<Rightarrow> (32 word \<times> handoff_env) option" where
  "wait_child child_pid parent_pid status env =
     (case waitpid_WUNTRACED child_pid status env of
        None \<Rightarrow> None
      | Some r \<Rightarrow>
          if fst r = child_pid \<and> WIFSTOPPED (fst (snd r))
          then wait_child child_pid parent_pid (fst (snd r))
                 (kill_proc child_pid SIGCONT (kill_proc parent_pid SIGSTOP (snd (snd r))))
          else Some (fst (snd r), snd (snd r)))"
  by pat_completeness auto
termination
proof (relation "measure (\<lambda>(child_pid, parent_pid, status, env). length (wait_script env))")
  show "wf (measure (\<lambda>(child_pid, parent_pid, status, env). length (wait_script env)))"
    by simp
next
  fix child_pid parent_pid :: int and status :: "32 word" and env :: handoff_env and r
  assume "waitpid_WUNTRACED child_pid status env = Some r"
  then have "length (wait_script (snd (snd r))) < length (wait_script env)"
    by (auto simp: waitpid_WUNTRACED_def split: list.splits wait_event.splits)
  then show "((child_pid, parent_pid, fst (snd r),
               kill_proc child_pid SIGCONT (kill_proc parent_pid SIGSTOP (snd (snd r)))),
              (child_pid, parent_pid, status, env))
      \<in> measure (\<lambda>(child_pid, parent_pid, status, env). length (wait_script env))"
    by (simp add: kill_proc_def)
qed

declare wait_child.simps [simp del]

text \<open>
  The signals whose default action ends the process: all but those whose
  default action is to ignore (\<open>SIGCHLD\<close>, \<open>SIGURG\<close>, \<open>SIGWINCH\<close>), to
  continue (\<open>SIGCONT\<close>) or to stop (\<open>SIGSTOP\<close>, \<open>SIGTSTP\<close>, \<open>SIGTTIN\<close>,
  \<open>SIGTTOU\<close>).
\<close>

definition default_terminates :: "int \<Rightarrow> bool" where
  "default_terminates sg =
     (sg \<notin> {SIGCHLD, SIGCONT, SIGSTOP, SIGTSTP, SIGTTIN, SIGTTOU, SIGURG, SIGWINCH})"

text \<open>
  \<open>kill(getpid(), sg)\<close> in a single-threaded process: a signal that is not
  blocked is delivered before the call returns. The process dies of it when
  the signal is \<open>SIGKILL\<close>, or is not blocked, has its default disposition
  and a default action that terminates. A blocked signal stays pending, an
  ignored one is discarded, a handler runs and returns; on a number that is
  not a signal the call fails. Then \<open>kill\<close> returns to the caller.
\<close>

definition kill_self_fatal :: "handoff_env \<Rightarrow> int \<Rightarrow> bool" where
  "kill_self_fatal env sg =
     (valid_signo sg
      \<and> (sg = SIGKILL
         \<or> (sg \<notin> self_blocked env \<and> self_disp env sg = SIG_DFL \<and> default_terminates sg)))"

text \<open>How a call ends for the process: it returns a value, or the process is killed by a signal.\<close>

datatype outcome = Returns int | KilledBy int

text \<open>
  \<open>status0\<close> is the content of the local \<open>status\<close> before the first
  \<open>waitpid\<close>; the source does not initialise it. The signals of the loop,
  \<open>SIGSTOP\<close> to the parent itself and \<open>SIGCONT\<close> to the child, never
  terminate the caller. The signal that the parent sends itself at the end is
  recorded in \<open>kills\<close>; \<open>return EXIT_FAILURE\<close> is reached only if the process
  survives it.
\<close>

definition continueAsChild :: "int \<Rightarrow> 32 word \<Rightarrow> handoff_env \<Rightarrow> (outcome \<times> handoff_env) option" where
  "continueAsChild child_pid status0 env =
     (let parent_pid = self_pid env
      in case wait_child child_pid parent_pid status0 env of
           None \<Rightarrow> None
         | Some (status, env') \<Rightarrow>
             if WIFEXITED status then Some (Returns (WEXITSTATUS status), env')
             else if WIFSIGNALED status
             then (if kill_self_fatal env' (WTERMSIG status)
                   then Some (KilledBy (WTERMSIG status),
                              kill_proc parent_pid (WTERMSIG status) env')
                   else Some (Returns EXIT_FAILURE,
                              kill_proc parent_pid (WTERMSIG status) env'))
             else Some (Returns EXIT_FAILURE, env'))"

section \<open>Namespace sets and the port file (util\_init.cpp)\<close>

subsection \<open>Printing a C int with \<open>%d\<close>\<close>

definition digit :: "nat \<Rightarrow> char" where
  "digit d = ''0123456789'' ! (d mod 10)"

function dec_nat :: "nat \<Rightarrow> string" where
  "dec_nat n = (if n < 10 then [digit n] else dec_nat (n div 10) @ [digit n])"
  by pat_completeness auto
termination
  by (relation "measure (\<lambda>n. n)") auto

declare dec_nat.simps [simp del]

definition dec_int :: "int \<Rightarrow> string" where
  "dec_int i = (if i < 0 then CHR ''-'' # dec_nat (nat (- i)) else dec_nat (nat i))"

subsection \<open>The process and its system calls\<close>

datatype nstype = CLONE_NEWUSER | CLONE_NEWNS | CLONE_NEWPID

datatype oflags = O_RDONLY | O_CREAT_WRONLY_TRUNC

datatype syscall =
  Open string oflags | Setns int nstype | Write int string | Fsync int | Close int

text \<open>
  The calling process: whether it still runs, its open descriptors with the
  path each was opened on, the next descriptor number, the contents of the
  files, every system call made so far with its return value (oldest first),
  and the warnings logged. Two fields stand for the rest of the system:
  \<open>open_ok\<close> says on which paths \<open>open\<close> succeeds, \<open>setns_ok\<close> whether a
  \<open>setns\<close> succeeds after the calls made so far.
\<close>

record process =
  running :: bool
  fd_table :: "(int \<times> string) list"
  next_fd :: nat
  files :: "string \<rightharpoonup> string"
  trace :: "(syscall \<times> int) list"
  warnings :: "string list"
  open_ok :: "string \<Rightarrow> bool"
  setns_ok :: "(syscall \<times> int) list \<Rightarrow> int \<Rightarrow> nstype \<Rightarrow> bool"

definition sys_open :: "string \<Rightarrow> oflags \<Rightarrow> process \<Rightarrow> int \<times> process" where
  "sys_open path fl p =
     (if open_ok p path
      then (int (next_fd p),
            p\<lparr>fd_table := fd_table p @ [(int (next_fd p), path)],
              next_fd := Suc (next_fd p),
              files := (if fl = O_CREAT_WRONLY_TRUNC then (files p)(path \<mapsto> []) else files p),
              trace := trace p @ [(Open path fl, int (next_fd p))]\<rparr>)
      else (-1, p\<lparr>trace := trace p @ [(Open path fl, -1)]\<rparr>))"

definition sys_setns :: "int \<Rightarrow> nstype \<Rightarrow> process \<Rightarrow> int \<times> process" where
  "sys_setns fd t p =
     (if setns_ok p (trace p) fd t
      then (0, p\<lparr>trace := trace p @ [(Setns fd t, 0)]\<rparr>)
      else (-1, p\<lparr>trace := trace p @ [(Setns fd t, -1)]\<rparr>))"

definition sys_fsync :: "int \<Rightarrow> process \<Rightarrow> int \<times> process" where
  "sys_fsync fd p =
     (if fd \<in> fst ` set (fd_table p)
      then (0, p\<lparr>trace := trace p @ [(Fsync fd, 0)]\<rparr>)
      else (-1, p\<lparr>trace := trace p @ [(Fsync fd, -1)]\<rparr>))"

definition sys_close :: "int \<Rightarrow> process \<Rightarrow> int \<times> process" where
  "sys_close fd p =
     (if fd \<in> fst ` set (fd_table p)
      then (0, p\<lparr>fd_table := filter (\<lambda>e. fst e \<noteq> fd) (fd_table p),
                 trace := trace p @ [(Close fd, 0)]\<rparr>)
      else (-1, p\<lparr>trace := trace p @ [(Close fd, -1)]\<rparr>))"

text \<open>
  Modelled from the spec: \<open>Util::writeAll\<close>, defined outside the sources at
  hand. It writes the first \<open>n\<close> bytes of the buffer to the descriptor, all of
  them, and returns \<open>n\<close>; on a descriptor that is not open it returns \<open>-1\<close>.
\<close>

definition writeAll :: "int \<Rightarrow> string \<Rightarrow> nat \<Rightarrow> process \<Rightarrow> int \<times> process" where
  "writeAll fd buf n p =
     (case map_of (fd_table p) fd of
        None \<Rightarrow> (-1, p\<lparr>trace := trace p @ [(Write fd (take n buf), -1)]\<rparr>)
      | Some path \<Rightarrow>
          (int n,
           p\<lparr>files := (files p)(path \<mapsto> (case files p path of None \<Rightarrow> [] | Some old \<Rightarrow> old) @ take n buf),
             trace := trace p @ [(Write fd (take n buf), int n)]\<rparr>))"

text \<open>
  Modelled from the spec: the failing branch of \<open>JASSERT\<close>. The process
  terminates, and the kernel closes every descriptor it held.
\<close>

definition exit_process :: "process \<Rightarrow> process" where
  "exit_process p = p\<lparr>running := False, fd_table := []\<rparr>"

definition jassert_fail :: "string \<Rightarrow> process \<Rightarrow> (error + 'a) \<times> process" where
  "jassert_fail msg p = (Inl (Fatal msg), exit_process p)"

text \<open>
  Modelled from the spec: \<open>JWARNING\<close>, also of \<open>jalib/jassert.h\<close>. A failed
  condition logs a warning and execution goes on.
\<close>

definition JWARNING :: "bool \<Rightarrow> string \<Rightarrow> process \<Rightarrow> process" where
  "JWARNING cond msg p = (if cond then p else p\<lparr>warnings := warnings p @ [msg]\<rparr>)"

subsection \<open>NamespaceSet\<close>

record NamespaceSet =
  usr_fd :: int
  mnt_fd :: int
  pid_fd :: int

text \<open>\<open>snprintf(filename, 64, fmt, pid)\<close> keeps at most 63 characters.\<close>

definition ns_filename :: "int \<Rightarrow> string \<Rightarrow> string" where
  "ns_filename pid name = take 63 (''/proc/'' @ dec_int pid @ ''/ns/'' @ name)"

text \<open>The constructor \<open>NamespaceSet(pid_t pid)\<close>.\<close>

definition NamespaceSet_new :: "int \<Rightarrow> process \<Rightarrow> (error + NamespaceSet) \<times> process" where
  "NamespaceSet_new pid p =
     (case sys_open (ns_filename pid ''user'') O_RDONLY p of (fd1, p1) \<Rightarrow>
        if fd1 = -1 then jassert_fail ''Failed to open user namespace'' p1
        else case sys_open (ns_filename pid ''mnt'') O_RDONLY p1 of (fd2, p2) \<Rightarrow>
          if fd2 = -1 then jassert_fail ''Failed to open mount namespace'' p2
          else case sys_open (ns_filename pid ''pid'') O_RDONLY p2 of (fd3, p3) \<Rightarrow>
            if fd3 = -1 then jassert_fail ''Failed to open pid namespace'' p3
            else (Inr \<lparr>usr_fd = fd1, mnt_fd = fd2, pid_fd = fd3\<rparr>, p3))"

definition connect_usr_ns :: "NamespaceSet \<Rightarrow> process \<Rightarrow> (error + unit) \<times> process" where
  "connect_usr_ns ns p =
     (case sys_setns (usr_fd ns) CLONE_NEWUSER p of (rv, p') \<Rightarrow>
        if rv = 0 then (Inr (), p') else jassert_fail ''Failed to set user namespace'' p')"

definition connect_mnt_ns :: "NamespaceSet \<Rightarrow> process \<Rightarrow> (error + unit) \<times> process" where
  "connect_mnt_ns ns p =
     (case sys_setns (mnt_fd ns) CLONE_NEWNS p of (rv, p') \<Rightarrow>
        if rv = 0 then (Inr (), p') else jassert_fail ''Failed to set mount namespace'' p')"

definition connect_pid_ns :: "NamespaceSet \<Rightarrow> process \<Rightarrow> (error + unit) \<times> process" where
  "connect_pid_ns ns p =
     (case sys_setns (pid_fd ns) CLONE_NEWPID p of (rv, p') \<Rightarrow>
        if rv = 0 then (Inr (), p') else jassert_fail ''Failed to set pid namespace'' p')"

definition connectns :: "NamespaceSet \<Rightarrow> process \<Rightarrow> (error + unit) \<times> process" where
  "connectns ns p =
     (case connect_usr_ns ns p of
        (Inl e, p1) \<Rightarrow> (Inl e, p1)
      | (Inr _, p1) \<Rightarrow>
          (case connect_mnt_ns ns p1 of
             (Inl e, p2) \<Rightarrow> (Inl e, p2)
           | (Inr _, p2) \<Rightarrow> connect_pid_ns ns p2))"

subsection \<open>writeCoordPortToFile\<close>

text \<open>
  A \<open>const char *\<close> is \<open>NULL\<close> (\<open>None\<close>) or points to a string. The port
  is only printed, so it is an \<open>int\<close> here; the buffer of 30 bytes holds any
  32-bit value in decimal.
\<close>

definition writeCoordPortToFile :: "int \<Rightarrow> string option \<Rightarrow> process \<Rightarrow> process" where
  "writeCoordPortToFile port portFile p =
     (case portFile of
        None \<Rightarrow> p
      | Some path \<Rightarrow>
          if 0 < length path then
            (case sys_open path O_CREAT_WRONLY_TRUNC p of (fd, p1) \<Rightarrow>
               let p2 = JWARNING (fd \<noteq> -1) ''Failed to open port file.'' p1;
                   port_buf = dec_int port;
                   p3 = snd (writeAll fd port_buf (length port_buf) p2);
                   p4 = snd (sys_fsync fd p3)
               in snd (sys_close fd p4))
          else p)"

section \<open>Inputs used in the examples\<close>

text \<open>A process that blocks no signal, has none pending and default dispositions.\<close>

definition sigstate0 :: sigstate where
  "sigstate0 =
     \<lparr>blocked = {}, pending = {}, sigttin_disp = zero_sigaction, sigttou_disp = zero_sigaction\<rparr>"

text \<open>The same process with \<open>SIGTTIN\<close> ignored.\<close>

definition sigstate_ttin_ignored :: sigstate where
  "sigstate_ttin_ignored =
     \<lparr>blocked = {}, pending = {},
      sigttin_disp = \<lparr>sa_handler = SIG_IGN, sa_mask = {}, sa_flags = 0\<rparr>,
      sigttou_disp = zero_sigaction\<rparr>"

text \<open>A configured supervisor with one running child, pid 42.\<close>

definition world0 :: world where
  "world0 =
     \<lparr>sigs = sigstate0\<lparr>blocked := {SIGCHLD}\<rparr>, children = [(42, Running)], schedule = []\<rparr>"

text \<open>Four children, three of them terminated and not yet collected.\<close>

definition three_zombies :: world where
  "three_zombies =
     \<lparr>sigs = sigstate0\<lparr>blocked := {SIGCHLD}\<rparr>,
      children = [(40, Zombie 0), (41, Running), (42, Zombie 0x700), (43, Zombie 9)],
      schedule = []\<rparr>"

text \<open>
  An unconfigured supervisor whose only child, pid 42, terminates with exit
  status 7 (wait status \<open>0x700\<close>) during the first timed wait.
\<close>

definition child_exits_7 :: world where
  "child_exits_7 =
     \<lparr>sigs = sigstate0, children = [(42, Running)], schedule = [Exits [(42, 0x700)]]\<rparr>"

text \<open>A configured supervisor whose child 42 has terminated with exit status 7.\<close>

definition child_42_zombie :: world where
  "child_42_zombie =
     \<lparr>sigs = sigstate0\<lparr>blocked := {SIGCHLD}\<rparr>, children = [(42, Zombie 0x700)], schedule = []\<rparr>"

text \<open>
  The parent is pid 100, blocks no signal and has every disposition at its
  default; the child is pid 101. The child is stopped by
  \<open>SIGSTOP\<close> (status \<open>0x137f\<close>), then by \<open>SIGTSTP\<close> (\<open>0x147f\<close>), then
  exits with code 3 (\<open>0x300\<close>).
\<close>

definition two_stops_exit_3 :: handoff_env where
  "two_stops_exit_3 =
     \<lparr>self_pid = 100,
      wait_script = [Reported 101 0x137f, Reported 101 0x147f, Reported 101 0x300],
      kills = [], self_blocked = {}, self_disp = (\<lambda>sg. SIG_DFL)\<rparr>"



text \<open>A fresh process with the three standard descriptors; every call succeeds.\<close>

definition process0 :: process where
  "process0 =
     \<lparr>running = True,
      fd_table = [(0, ''/dev/tty''), (1, ''/dev/tty''), (2, ''/dev/tty'')],
      next_fd = 3, files = Map.empty, trace = [], warnings = [],
      open_ok = (\<lambda>path. True), setns_ok = (\<lambda>tr fd t. True)\<rparr>"

text \<open>The same process where joining a mount namespace is refused.\<close>

definition mnt_refused :: process where
  "mnt_refused = process0\<lparr>setns_ok := (\<lambda>tr fd t. t \<noteq> CLONE_NEWNS)\<rparr>"

text \<open>The same process where \<open>/proc/1234/ns/mnt\<close> cannot be opened.\<close>

definition mnt_missing :: process where
  "mnt_missing = process0\<lparr>open_ok := (\<lambda>path. path \<noteq> ''/proc/1234/ns/mnt'')\<rparr>"

section \<open>Predicates of the statements\<close>

definition is_zombie :: "int \<times> pstate \<Rightarrow> bool" where
  "is_zombie c = (snd c \<noteq> Running)"

text \<open>Process ids are positive.\<close>

definition pids_ok :: "world \<Rightarrow> bool" where
  "pids_ok w = list_all (\<lambda>c. 0 < fst c) (children w)"

text \<open>A report that the child is stopped.\<close>

definition stop_event :: "int \<Rightarrow> wait_event \<Rightarrow> bool" where
  "stop_event child_pid ev =
     (case ev of Reported p st \<Rightarrow> p = child_pid \<and> WIFSTOPPED st | Failed e \<Rightarrow> False)"

text \<open>The signals sent while the child goes through the given stops.\<close>

definition stop_cycles :: "int \<Rightarrow> int \<Rightarrow> wait_event list \<Rightarrow> (int \<times> int) list" where
  "stop_cycles parent_pid child_pid stops =
     concat (map (\<lambda>ev. [(parent_pid, SIGSTOP), (child_pid, SIGCONT)]) stops)"

text \<open>The three joins of \<open>connectns\<close>, in the order of the source.\<close>

definition joins :: "NamespaceSet \<Rightarrow> syscall list" where
  "joins ns = [Setns (usr_fd ns) CLONE_NEWUSER, Setns (mnt_fd ns) CLONE_NEWNS,
               Setns (pid_fd ns) CLONE_NEWPID]"

section \<open>Properties of the signal configuration\<close>

lemmas signo_defs =
  SIGKILL_def SIGTERM_def SIGCHLD_def SIGCONT_def SIGSTOP_def SIGTSTP_def SIGTTIN_def
  SIGTTOU_def SIGURG_def SIGWINCH_def

lemmas errno_defs = EINTR_def ECHILD_def EAGAIN_def EINVAL_def

lemma configure_signals_eq:
  "configure_signals sigconf s =
     Inr (0, {SIGCHLD}, sigconf\<lparr>sigmask := blocked s\<rparr>, s\<lparr>blocked := {SIGCHLD}\<rparr>)"
  by (simp add: configure_signals_def sigemptyset_def sigaddset_def valid_signo_def
      sigprocmask_SETMASK_def signo_defs)

lemma restore_signals_eq:
  "restore_signals sigconf s =
     Inr (0, s\<lparr>blocked := sigmask sigconf - {SIGKILL, SIGSTOP},
               sigttin_disp := sigttin_action sigconf,
               sigttou_disp := sigttou_action sigconf\<rparr>)"
  by (simp add: restore_signals_def sigprocmask_SETMASK_def sigaction_install_def
      valid_signo_def signo_defs)

text \<open>
  C2, as the code has it. \<open>configure_signals\<close> saves the signal mask and
  nothing else: it does not read the dispositions of \<open>SIGTTIN\<close> and
  \<open>SIGTTOU\<close>, does not alter them, and leaves the two action slots of the
  configuration as the caller filled them. \<open>restore_signals\<close> after it puts
  the original mask back and installs those two slots as the dispositions. So
  the round trip is the identity on the mask, and the identity on the whole
  signal state exactly when the two slots held the dispositions in effect.
\<close>

theorem restore_after_configure:
  "mask_ok s \<Longrightarrow>
     configure_signals sigconf s =
       Inr (0, {SIGCHLD}, sigconf\<lparr>sigmask := blocked s\<rparr>, s\<lparr>blocked := {SIGCHLD}\<rparr>)
     \<and> configure_then_restore sigconf s =
         Inr (s\<lparr>sigttin_disp := sigttin_action sigconf, sigttou_disp := sigttou_action sigconf\<rparr>)
     \<and> (configure_then_restore sigconf s = Inr s) =
         (sigttin_action sigconf = sigttin_disp s \<and> sigttou_action sigconf = sigttou_disp s)"
proof -
  assume ok: "mask_ok s"
  then have m: "blocked s - {SIGKILL, SIGSTOP} = blocked s"
    by (auto simp: mask_ok_def)
  have r: "configure_then_restore sigconf s =
      Inr (s\<lparr>sigttin_disp := sigttin_action sigconf, sigttou_disp := sigttou_action sigconf\<rparr>)"
    by (simp add: configure_then_restore_def configure_signals_eq restore_signals_eq m)
  have "(s\<lparr>sigttin_disp := a, sigttou_disp := b\<rparr> = s) = (a = sigttin_disp s \<and> b = sigttou_disp s)"
    for a b
    by (cases s) auto
  with r show ?thesis
    by (simp add: configure_signals_eq)
qed

theorem restore_after_configure_witness:
  "mask_ok sigstate0 \<and> configure_then_restore child_sigconf sigstate0 = Inr sigstate0"
  using restore_after_configure [of sigstate0 child_sigconf]
  by (simp add: mask_ok_def sigstate0_def child_sigconf_def)

text \<open>
  C2 as stated fails: with \<open>SIGTTIN\<close> ignored beforehand, configuring and
  restoring with the configuration of \<open>dmtcp_init_main\<close> ends with \<open>SIGTTIN\<close>
  at its default disposition.
\<close>

theorem restore_after_configure_counterexample:
  "configure_then_restore child_sigconf sigstate_ttin_ignored = Inr sigstate0
   \<and> configure_then_restore child_sigconf sigstate_ttin_ignored \<noteq> Inr sigstate_ttin_ignored"
  by (simp add: configure_then_restore_def configure_signals_eq restore_signals_eq
      child_sigconf_def sigstate_ttin_ignored_def sigstate0_def zero_sigaction_def)

lemma blocked_fold_kernel_raise: "blocked (fold kernel_raise sgs s) = blocked s"
  by (induction sgs arbitrary: s) (simp_all add: kernel_raise_def)

lemma pending_kernel_raise: "x \<in> pending s \<Longrightarrow> x \<in> pending (kernel_raise sg s)"
  by (simp add: kernel_raise_def)

lemma pending_fold_kernel_raise_mono:
  "x \<in> pending s \<Longrightarrow> x \<in> pending (fold kernel_raise sgs s)"
  by (induction sgs arbitrary: s) (simp_all add: pending_kernel_raise)

lemma pending_fold_kernel_raise:
  "sg \<in> set sgs \<Longrightarrow> sg \<in> blocked s \<Longrightarrow> sg \<in> pending (fold kernel_raise sgs s)"
proof (induction sgs arbitrary: s)
  case Nil
  then show ?case by simp
next
  case (Cons a sgs)
  show ?case
  proof (cases "a = sg")
    case True
    with Cons.prems have "sg \<in> pending (kernel_raise a s)"
      by (simp add: kernel_raise_def)
    then show ?thesis
      by (simp add: pending_fold_kernel_raise_mono)
  next
    case False
    with Cons.prems have "sg \<in> set sgs" and "sg \<in> blocked (kernel_raise a s)"
      by (simp_all add: kernel_raise_def)
    then show ?thesis
      using Cons.IH by simp
  qed
qed

lemma pending_child_exits: "x \<in> pending (sigs w) \<Longrightarrow> x \<in> pending (sigs (child_exits c w))"
  by (simp add: child_exits_def pending_kernel_raise)

lemma pending_fold_child_exits:
  "x \<in> pending (sigs w) \<Longrightarrow> x \<in> pending (sigs (fold child_exits cs w))"
  by (induction cs arbitrary: w) (simp_all add: pending_child_exits)

lemma accept_signal_pending:
  "sg \<in> pending (sigs w) \<Longrightarrow>
     accept_signal {sg} e w =
       (sg, 0, sg, w\<lparr>sigs := (sigs w)\<lparr>pending := pending (sigs w) - {sg}\<rparr>\<rparr>)"
  by (simp add: accept_signal_def Let_def)

text \<open>A pending signal is what the next timed wait on it returns, whatever else happens.\<close>

lemma sigtimedwait_pending:
  assumes "sg \<in> pending (sigs w)"
  shows "fst (sigtimedwait {sg} w) = sg \<and> fst (snd (snd (sigtimedwait {sg} w))) = sg"
proof (cases "schedule w")
  case Nil
  with assms show ?thesis
    by (simp add: sigtimedwait_def accept_signal_pending)
next
  case (Cons t ts)
  show ?thesis
  proof (cases t)
    case (Exits cs)
    from assms have "sg \<in> pending (sigs (fold child_exits cs (w\<lparr>schedule := ts\<rparr>)))"
      by (simp add: pending_fold_child_exits)
    with Cons Exits show ?thesis
      by (simp add: sigtimedwait_def accept_signal_pending)
  next
    case (Sent x)
    from assms have "sg \<in> pending (kernel_raise x (sigs w))"
      by (rule pending_kernel_raise)
    with Cons Sent show ?thesis
      by (simp add: sigtimedwait_def accept_signal_pending)
  qed (use assms Cons in \<open>simp_all add: sigtimedwait_def accept_signal_pending\<close>)
qed

text \<open>
  C3, as the code has it. \<open>configure_signals\<close> always succeeds and installs
  the mask that holds \<open>SIGCHLD\<close> alone, which is also the set it hands back
  for the timed wait: \<open>SIGCHLD\<close> is blocked and every other signal is not.
  Whatever signals are sent afterwards, once a \<open>SIGCHLD\<close> is among them the
  next timed wait on that set returns \<open>SIGCHLD\<close>, and
  \<open>wait_and_forward_signal\<close> returns 0: the signal is not lost.
\<close>

theorem configure_signals_blocks_only_SIGCHLD:
  "configure_signals sigconf s =
     Inr (0, {SIGCHLD}, sigconf\<lparr>sigmask := blocked s\<rparr>, s\<lparr>blocked := {SIGCHLD}\<rparr>)
   \<and> (SIGCHLD \<in> set sgs \<and> sigs w = fold kernel_raise sgs (s\<lparr>blocked := {SIGCHLD}\<rparr>) \<longrightarrow>
        fst (sigtimedwait {SIGCHLD} w) = SIGCHLD
        \<and> fst (wait_and_forward_signal {SIGCHLD} child_pid w) = Inr 0)"
proof (intro conjI impI)
  show "configure_signals sigconf s =
     Inr (0, {SIGCHLD}, sigconf\<lparr>sigmask := blocked s\<rparr>, s\<lparr>blocked := {SIGCHLD}\<rparr>)"
    by (rule configure_signals_eq)
next
  assume a: "SIGCHLD \<in> set sgs \<and> sigs w = fold kernel_raise sgs (s\<lparr>blocked := {SIGCHLD}\<rparr>)"
  then have p: "SIGCHLD \<in> pending (sigs w)"
    by (simp add: pending_fold_kernel_raise)
  then show "fst (sigtimedwait {SIGCHLD} w) = SIGCHLD"
    by (simp add: sigtimedwait_pending)
  from sigtimedwait_pending [OF p]
  show "fst (wait_and_forward_signal {SIGCHLD} child_pid w) = Inr 0"
    by (auto simp: wait_and_forward_signal_def signo_defs split: prod.splits)
qed

theorem configure_signals_blocks_only_SIGCHLD_witness:
  "SIGCHLD \<in> set [SIGTERM, SIGCHLD, SIGCHLD]
   \<and> fst (sigtimedwait {SIGCHLD}
       \<lparr>sigs = fold kernel_raise [SIGTERM, SIGCHLD, SIGCHLD] (sigstate0\<lparr>blocked := {SIGCHLD}\<rparr>),
        children = [], schedule = []\<rparr>) = SIGCHLD"
  using configure_signals_blocks_only_SIGCHLD
    [of child_sigconf sigstate0 "[SIGTERM, SIGCHLD, SIGCHLD]"
        "\<lparr>sigs = fold kernel_raise [SIGTERM, SIGCHLD, SIGCHLD] (sigstate0\<lparr>blocked := {SIGCHLD}\<rparr>),
          children = [], schedule = []\<rparr>"]
  by simp

text \<open>
  C3 as stated fails: the mask installed is not the full one. After
  \<open>configure_signals\<close> the signal \<open>SIGTERM\<close> is not blocked, and a
  \<open>SIGTERM\<close> sent then is delivered at once instead of being held pending.
\<close>

theorem configure_signals_full_mask_counterexample:
  "configure_signals child_sigconf sigstate0 =
     Inr (0, {SIGCHLD}, child_sigconf, sigstate0\<lparr>blocked := {SIGCHLD}\<rparr>)
   \<and> SIGTERM \<notin> blocked (sigstate0\<lparr>blocked := {SIGCHLD}\<rparr>)
   \<and> pending (kernel_raise SIGTERM (sigstate0\<lparr>blocked := {SIGCHLD}\<rparr>)) = {}"
  by (simp add: configure_signals_eq kernel_raise_def sigstate0_def child_sigconf_def signo_defs)

section \<open>Properties of the supervisor loop\<close>

text \<open>
  C7. Whatever the timed wait returns, \<open>wait_and_forward_signal\<close> returns 0
  exactly when the wait failed with \<open>EAGAIN\<close> or \<open>EINTR\<close> or delivered
  \<open>SIGCHLD\<close>; in every other case it ends in a fatal error. The world is
  left as the wait left it: nothing is forwarded.
\<close>

theorem wait_and_forward_signal_outcome:
  "sigtimedwait parent_sigset w = (ret, errno, si_signo, w') \<Longrightarrow>
     (fst (wait_and_forward_signal parent_sigset child_pid w) = Inr 0)
       = (ret = -1 \<and> (errno = EAGAIN \<or> errno = EINTR) \<or> ret \<noteq> -1 \<and> si_signo = SIGCHLD)
     \<and> (fst (wait_and_forward_signal parent_sigset child_pid w) = Inr 0
        \<or> (\<exists>msg. fst (wait_and_forward_signal parent_sigset child_pid w) = Inl (Fatal msg)))
     \<and> snd (wait_and_forward_signal parent_sigset child_pid w) = w'"
  by (simp add: wait_and_forward_signal_def)

lemma sigtimedwait_timeout: "sigtimedwait {SIGCHLD} world0 = (-1, EAGAIN, 0, world0)"
  by (simp add: sigtimedwait_def accept_signal_def world0_def sigstate0_def)

lemma sigtimedwait_interrupt:
  "sigtimedwait {SIGCHLD} (world0\<lparr>schedule := [Interrupt]\<rparr>) = (-1, EINTR, 0, world0)"
  by (simp add: sigtimedwait_def accept_signal_def world0_def sigstate0_def)

lemma sigtimedwait_fault:
  "sigtimedwait {SIGCHLD} (world0\<lparr>schedule := [Fault EINVAL]\<rparr>) = (-1, EINVAL, 0, world0)"
  by (simp add: sigtimedwait_def accept_signal_def world0_def sigstate0_def)

lemma sigtimedwait_sigchld:
  "sigtimedwait {SIGCHLD} (world0\<lparr>schedule := [Exits [(42, 0x700)]]\<rparr>) =
     (SIGCHLD, 0, SIGCHLD, world0\<lparr>children := [(42, Zombie 0x700)]\<rparr>)"
  by (simp add: sigtimedwait_def accept_signal_def world0_def sigstate0_def child_exits_def
      kernel_raise_def)

lemma sigtimedwait_sigterm:
  "sigtimedwait {SIGCHLD, SIGTERM}
     (world0\<lparr>sigs := sigstate0\<lparr>blocked := {SIGCHLD, SIGTERM}\<rparr>, schedule := [Sent SIGTERM]\<rparr>) =
     (SIGTERM, 0, SIGTERM, world0\<lparr>sigs := sigstate0\<lparr>blocked := {SIGCHLD, SIGTERM}\<rparr>\<rparr>)"
  by (simp add: sigtimedwait_def accept_signal_def world0_def sigstate0_def kernel_raise_def
      signo_defs)

theorem wait_and_forward_signal_outcome_witness:
  "fst (wait_and_forward_signal {SIGCHLD} (-1) world0) = Inr 0
   \<and> fst (wait_and_forward_signal {SIGCHLD} (-1) (world0\<lparr>schedule := [Interrupt]\<rparr>)) = Inr 0
   \<and> fst (wait_and_forward_signal {SIGCHLD} (-1) (world0\<lparr>schedule := [Exits [(42, 0x700)]]\<rparr>))
       = Inr 0
   \<and> fst (wait_and_forward_signal {SIGCHLD} (-1) (world0\<lparr>schedule := [Fault EINVAL]\<rparr>))
       \<noteq> Inr 0
   \<and> fst (wait_and_forward_signal {SIGCHLD, SIGTERM} (-1)
           (world0\<lparr>sigs := sigstate0\<lparr>blocked := {SIGCHLD, SIGTERM}\<rparr>,
                   schedule := [Sent SIGTERM]\<rparr>)) \<noteq> Inr 0"
  using wait_and_forward_signal_outcome [OF sigtimedwait_timeout, of "-1"]
    wait_and_forward_signal_outcome [OF sigtimedwait_interrupt, of "-1"]
    wait_and_forward_signal_outcome [OF sigtimedwait_sigchld, of "-1"]
    wait_and_forward_signal_outcome [OF sigtimedwait_fault, of "-1"]
    wait_and_forward_signal_outcome [OF sigtimedwait_sigterm, of "-1"]
  by (simp add: signo_defs errno_defs)

lemma first_zombie_None: "first_zombie ps = None \<Longrightarrow> filter (\<lambda>c. \<not> is_zombie c) ps = ps"
  by (induction ps rule: first_zombie.induct) (simp_all add: is_zombie_def)

lemma first_zombie_Some:
  "first_zombie ps = Some (p, st) \<Longrightarrow>
     (p, Zombie st) \<in> set ps
     \<and> filter (\<lambda>c. \<not> is_zombie c) (remove1 (p, Zombie st) ps) = filter (\<lambda>c. \<not> is_zombie c) ps"
  by (induction ps rule: first_zombie.induct) (auto simp: is_zombie_def)

lemma first_zombie_filter: "first_zombie (filter (\<lambda>c. \<not> is_zombie c) ps) = None"
proof (induction ps)
  case Nil
  show ?case by simp
next
  case (Cons c ps)
  obtain p q where c: "c = (p, q)" by (cases c)
  from Cons show ?case
    by (cases q) (simp_all add: c is_zombie_def)
qed

text \<open>One turn of the loop of \<open>reap_zombies\<close>, with \<open>waitpid\<close> unfolded.\<close>

lemma reap_zombies_unfold:
  "reap_zombies child_pid child_exitcode w =
     (if children w = [] then (Inr (0, child_exitcode), w)
      else case first_zombie (children w) of
             None \<Rightarrow> (Inr (0, child_exitcode), w)
           | Some (p, st) \<Rightarrow>
               if p = -1 then (Inl (Fatal ''Error while waiting for pids''),
                               w\<lparr>children := remove1 (p, Zombie st) (children w)\<rparr>)
               else if p = 0 then (Inr (0, child_exitcode),
                                   w\<lparr>children := remove1 (p, Zombie st) (children w)\<rparr>)
               else reap_zombies child_pid child_exitcode
                      (w\<lparr>children := remove1 (p, Zombie st) (children w)\<rparr>))"
  by (subst reap_zombies.simps)
     (simp add: waitpid_any_WNOHANG_def Let_def errno_defs split: option.splits)

lemma reap_zombies_all:
  "pids_ok w \<Longrightarrow>
     reap_zombies child_pid child_exitcode w =
       (Inr (0, child_exitcode), w\<lparr>children := filter (\<lambda>c. \<not> is_zombie c) (children w)\<rparr>)"
proof (induction "length (children w)" arbitrary: w rule: less_induct)
  case less
  show ?case
  proof (cases "children w = []")
    case True
    then show ?thesis
      by (subst reap_zombies_unfold) simp
  next
    case False
    show ?thesis
    proof (cases "first_zombie (children w)")
      case None
      with False show ?thesis
        by (subst reap_zombies_unfold) (simp add: first_zombie_None)
    next
      case (Some z)
      obtain p st where z: "z = (p, st)" by (cases z)
      let ?w = "w\<lparr>children := remove1 (p, Zombie st) (children w)\<rparr>"
      from Some z have mem: "(p, Zombie st) \<in> set (children w)"
        and flt: "filter (\<lambda>c. \<not> is_zombie c) (remove1 (p, Zombie st) (children w))
                   = filter (\<lambda>c. \<not> is_zombie c) (children w)"
        using first_zombie_Some by simp_all
      from mem less.prems have pos: "0 < p"
        by (auto simp: pids_ok_def list_all_iff)
      from mem have len: "length (children ?w) < length (children w)"
        by (simp add: length_remove1) (cases "children w", auto)
      from less.prems have ok: "pids_ok ?w"
        by (auto simp: pids_ok_def list_all_iff dest: notin_set_remove1)
      have "reap_zombies child_pid child_exitcode w = reap_zombies child_pid child_exitcode ?w"
        using False Some z pos by (subst reap_zombies_unfold) simp
      also have "\<dots> = (Inr (0, child_exitcode),
                      ?w\<lparr>children := filter (\<lambda>c. \<not> is_zombie c) (children ?w)\<rparr>)"
        using less.hyps [OF len ok] .
      finally show ?thesis
        by (simp add: flt)
    qed
  qed
qed

text \<open>
  C6. With N terminated children in the table, one call of \<open>reap_zombies\<close>
  returns 0 and leaves the table without any of them: every entry that was
  not terminated is still there, the table is shorter by N, and the
  \<open>waitpid\<close> that follows finds nothing to collect.
\<close>

theorem reap_zombies_drains:
  "pids_ok w \<Longrightarrow>
     fst (reap_zombies child_pid child_exitcode w) = Inr (0, child_exitcode)
     \<and> children (snd (reap_zombies child_pid child_exitcode w))
         = filter (\<lambda>c. \<not> is_zombie c) (children w)
     \<and> filter is_zombie (children (snd (reap_zombies child_pid child_exitcode w))) = []
     \<and> length (children w)
         = length (children (snd (reap_zombies child_pid child_exitcode w)))
           + length (filter is_zombie (children w))
     \<and> fst (waitpid_any_WNOHANG (snd (reap_zombies child_pid child_exitcode w))) \<in> {-1, 0}"
proof -
  assume ok: "pids_ok w"
  let ?r = "reap_zombies child_pid child_exitcode w"
  have r: "?r = (Inr (0, child_exitcode), w\<lparr>children := filter (\<lambda>c. \<not> is_zombie c) (children w)\<rparr>)"
    using ok by (rule reap_zombies_all)
  have len: "length ps = length (filter (\<lambda>c. \<not> is_zombie c) ps) + length (filter is_zombie ps)"
    for ps :: "(int \<times> pstate) list"
    using sum_length_filter_compl [of is_zombie ps] by simp
  show ?thesis
    using len [of "children w"]
    by (simp add: r waitpid_any_WNOHANG_def first_zombie_filter)
qed

lemma children_three_zombies:
  "children three_zombies = [(40, Zombie 0), (41, Running), (42, Zombie 0x700), (43, Zombie 9)]"
  by (simp add: three_zombies_def)

lemma pids_ok_three_zombies: "pids_ok three_zombies"
  by (simp add: pids_ok_def children_three_zombies)

lemma survivors_three_zombies:
  "filter (\<lambda>c. \<not> is_zombie c) (children three_zombies) = [(41, Running)]"
  by (simp add: children_three_zombies is_zombie_def)

lemma count_three_zombies: "length (filter is_zombie (children three_zombies)) = 3"
  by (simp add: children_three_zombies is_zombie_def)

theorem reap_zombies_drains_witness:
  "pids_ok three_zombies
   \<and> length (filter is_zombie (children three_zombies)) = 3
   \<and> fst (reap_zombies 42 (-1) three_zombies) = Inr (0, -1)
   \<and> children (snd (reap_zombies 42 (-1) three_zombies)) = [(41, Running)]"
proof -
  note d = reap_zombies_drains [OF pids_ok_three_zombies, of 42 "-1"]
  from d have a: "fst (reap_zombies 42 (-1) three_zombies) = Inr (0, -1)"
    by (rule conjunct1)
  from d have b: "children (snd (reap_zombies 42 (-1) three_zombies))
      = filter (\<lambda>c. \<not> is_zombie c) (children three_zombies)"
    by (rule conjunct2 [THEN conjunct1])
  from b have c: "children (snd (reap_zombies 42 (-1) three_zombies)) = [(41, Running)]"
    by (simp only: survivors_three_zombies)
  from pids_ok_three_zombies count_three_zombies a c show ?thesis
    by (intro conjI)
qed

lemma reap_zombies_exitcode:
  "reap_zombies child_pid child_exitcode w = (Inr (r, ec), w') \<Longrightarrow> r = 0 \<and> ec = child_exitcode"
proof (induction child_pid child_exitcode w rule: reap_zombies.induct)
  case (1 child_pid child_exitcode w)
  show ?case
  proof (cases "fst (waitpid_any_WNOHANG w) = -1 \<or> fst (waitpid_any_WNOHANG w) = 0")
    case True
    with "1.prems" show ?thesis
      by (subst (asm) reap_zombies.simps) (auto simp: Let_def split: if_splits)
  next
    case False
    with "1.prems" have "reap_zombies child_pid child_exitcode
        (snd (snd (snd (waitpid_any_WNOHANG w)))) = (Inr (r, ec), w')"
      by (subst (asm) reap_zombies.simps) (simp add: Let_def)
    with False "1.IH" show ?thesis
      by simp
  qed
qed

lemma wait_and_forward_signal_zero:
  "wait_and_forward_signal st cp w = (Inr r, w') \<Longrightarrow> r = 0"
  by (auto simp: wait_and_forward_signal_def split: prod.splits if_splits)

text \<open>The exit code stays \<open>-1\<close>, so the loop never reaches \<open>return child_exitcode\<close>.\<close>

lemma supervise_no_exit: "supervise n st cp (-1) w \<noteq> Some (Inr c, w')"
proof (induction n arbitrary: w)
  case 0
  show ?case by simp
next
  case (Suc n)
  obtain a w1 where wf: "wait_and_forward_signal st cp w = (a, w1)"
    by (cases "wait_and_forward_signal st cp w")
  show ?case
  proof (cases a)
    case (Inl e)
    with wf show ?thesis by simp
  next
    case (Inr r1)
    with wf have r1: "r1 = 0" by (simp add: wait_and_forward_signal_zero)
    obtain b w2 where rz: "reap_zombies cp (-1) w1 = (b, w2)"
      by (cases "reap_zombies cp (-1) w1")
    show ?thesis
    proof (cases b)
      case (Inl e)
      with wf Inr r1 rz show ?thesis by simp
    next
      case (Inr p)
      obtain r2 ec where p: "p = (r2, ec)" by (cases p)
      from rz Inr p have "r2 = 0 \<and> ec = -1"
        by (simp add: reap_zombies_exitcode)
      with wf \<open>a = Inr r1\<close> r1 rz Inr p Suc.IH [of w2] show ?thesis
        by simp
    qed
  qed
qed

lemma dmtcp_init_main_no_exit: "dmtcp_init_main n w \<noteq> Some (Inr c, w')"
  by (simp add: dmtcp_init_main_def configure_signals_eq supervise_no_exit)

lemma supervise_idle:
  "schedule w = [] \<Longrightarrow> pending (sigs w) \<inter> st = {} \<Longrightarrow> children w = [] \<Longrightarrow>
     supervise n st cp (-1) w = None"
proof (induction n)
  case 0
  show ?case by simp
next
  case (Suc n)
  from Suc.prems have w: "wait_and_forward_signal st cp w = (Inr 0, w)"
    by (simp add: wait_and_forward_signal_def sigtimedwait_def accept_signal_def errno_defs)
  from Suc.prems have r: "reap_zombies cp (-1) w = (Inr (0, -1), w)"
    by (subst reap_zombies_unfold) simp
  from Suc show ?case
    by (simp add: w r)
qed

lemma reap_child_42:
  "reap_zombies cp ec child_42_zombie = (Inr (0, ec), child_42_zombie\<lparr>children := []\<rparr>)"
  by (subst reap_zombies_unfold, simp add: child_42_zombie_def, subst reap_zombies_unfold) simp

lemma wait_child_exits_7:
  "wait_and_forward_signal {SIGCHLD} cp (child_exits_7\<lparr>sigs := sigstate0\<lparr>blocked := {SIGCHLD}\<rparr>\<rparr>)
     = (Inr 0, child_42_zombie)"
  by (simp add: wait_and_forward_signal_def sigtimedwait_def accept_signal_def child_exits_7_def
      child_exits_def kernel_raise_def sigstate0_def child_42_zombie_def signo_defs)

lemma dmtcp_init_main_child_exits_7: "dmtcp_init_main n child_exits_7 = None"
proof (cases n)
  case 0
  then show ?thesis
    by (simp add: dmtcp_init_main_def configure_signals_eq)
next
  case (Suc m)
  have idle: "supervise m {SIGCHLD} (-1) (-1) (child_42_zombie\<lparr>children := []\<rparr>) = None"
    by (rule supervise_idle) (simp_all add: child_42_zombie_def sigstate0_def)
  have sg: "sigs child_exits_7 = sigstate0"
    by (simp add: child_exits_7_def)
  show ?thesis
    by (simp add: dmtcp_init_main_def configure_signals_eq Suc sg wait_child_exits_7
        reap_child_42 idle)
qed

text \<open>
  C1 fails on the code. \<open>reap_zombies\<close> does not compare the pid it has
  collected with \<open>child_pid\<close> and never writes \<open>*child_exitcode_ptr\<close>: called
  for the tracked child 42, which has terminated with exit status 7, it
  collects the child and leaves the exit code at \<open>-1\<close>. So
  \<open>dmtcp_init_main\<close> does not return 7 when its child exits with 7: it is
  still looping after any number of iterations.
\<close>

theorem dmtcp_init_main_drops_exit_status:
  "reap_zombies 42 (-1) child_42_zombie = (Inr (0, -1), child_42_zombie\<lparr>children := []\<rparr>)
   \<and> (\<forall>n. dmtcp_init_main n child_exits_7 = None)"
  by (simp add: reap_child_42 dmtcp_init_main_child_exits_7)

section \<open>Properties of the handoff\<close>

lemma WIFSTOPPED_low7: "WIFSTOPPED st \<Longrightarrow> st AND 0x7f = 0x7f"
proof -
  assume "WIFSTOPPED st"
  then have s: "st AND 0xff = 0x7f" by (simp add: WIFSTOPPED_def)
  have "st AND 0x7f = (st AND 0xff) AND 0x7f"
    by (simp add: and.assoc)
  also have "\<dots> = 0x7f" by (simp add: s)
  finally show ?thesis .
qed

lemma WIFEXITED_not_WIFSTOPPED: "WIFEXITED st \<Longrightarrow> \<not> WIFSTOPPED st"
proof
  assume e: "WIFEXITED st" and "WIFSTOPPED st"
  then have "st AND 0x7f = 0x7f" by (simp add: WIFSTOPPED_low7)
  with e show False by (simp add: WIFEXITED_def WTERMSIG_def)
qed



lemma wait_child_blocked:
  "wait_script env = [] \<Longrightarrow> wait_child child_pid parent_pid status env = None"
  by (subst wait_child.simps) (simp add: waitpid_WUNTRACED_def)

lemma wait_child_stop:
  "wait_script env = Reported child_pid st # evs \<Longrightarrow> WIFSTOPPED st \<Longrightarrow>
     wait_child child_pid parent_pid status env =
       wait_child child_pid parent_pid st
         (env\<lparr>wait_script := evs,
               kills := kills env @ [(parent_pid, SIGSTOP), (child_pid, SIGCONT)]\<rparr>)"
  by (subst wait_child.simps) (simp add: waitpid_WUNTRACED_def kill_proc_def)

lemma wait_child_break:
  "wait_script env = Reported child_pid st # evs \<Longrightarrow> \<not> WIFSTOPPED st \<Longrightarrow>
     wait_child child_pid parent_pid status env = Some (st, env\<lparr>wait_script := evs\<rparr>)"
  by (subst wait_child.simps) (simp add: waitpid_WUNTRACED_def)

lemma wait_child_stops:
  "list_all (stop_event child_pid) stops \<Longrightarrow> wait_script env = stops @ Reported child_pid st # rest \<Longrightarrow>
     \<not> WIFSTOPPED st \<Longrightarrow>
     wait_child child_pid parent_pid status env =
       Some (st, env\<lparr>wait_script := rest,
                     kills := kills env @ stop_cycles parent_pid child_pid stops\<rparr>)"
proof (induction stops arbitrary: status env)
  case Nil
  then show ?case
    by (simp add: wait_child_break stop_cycles_def)
next
  case (Cons ev stops)
  from Cons.prems(1) obtain s where ev: "ev = Reported child_pid s" and s: "WIFSTOPPED s"
    by (auto simp: stop_event_def split: wait_event.splits)
  let ?env = "env\<lparr>wait_script := stops @ Reported child_pid st # rest,
                   kills := kills env @ [(parent_pid, SIGSTOP), (child_pid, SIGCONT)]\<rparr>"
  from Cons.prems(2) ev s
  have "wait_child child_pid parent_pid status env = wait_child child_pid parent_pid s ?env"
    by (simp add: wait_child_stop)
  also from Cons.prems have "\<dots> = Some (st, ?env\<lparr>wait_script := rest,
      kills := kills ?env @ stop_cycles parent_pid child_pid stops\<rparr>)"
    by (intro Cons.IH) simp_all
  finally show ?case
    by (simp add: stop_cycles_def)
qed

text \<open>The two signals of the loop never end the process that sends them to itself.\<close>

lemma loop_signals_not_fatal:
  "\<not> kill_self_fatal env SIGSTOP \<and> \<not> kill_self_fatal env SIGCONT"
  by (simp add: kill_self_fatal_def default_terminates_def signo_defs)

text \<open>
  C4. A child that is reported stopped twice and then exits with code 3:
  \<open>continueAsChild\<close> sends \<open>SIGSTOP\<close> to itself and \<open>SIGCONT\<close> to the child
  once for each stop, four signals in all, and returns 3.
\<close>

theorem continueAsChild_two_stops_then_exit_3:
  "WIFSTOPPED st1 \<Longrightarrow> WIFSTOPPED st2 \<Longrightarrow> WIFEXITED st3 \<Longrightarrow> WEXITSTATUS st3 = 3 \<Longrightarrow>
   wait_script env = Reported child_pid st1 # Reported child_pid st2 # Reported child_pid st3 # rest \<Longrightarrow>
     continueAsChild child_pid status0 env =
       Some (Returns 3,
             env\<lparr>wait_script := rest,
                 kills := kills env @ [(self_pid env, SIGSTOP), (child_pid, SIGCONT),
                                       (self_pid env, SIGSTOP), (child_pid, SIGCONT)]\<rparr>)"
proof -
  assume s1: "WIFSTOPPED st1" and s2: "WIFSTOPPED st2" and e3: "WIFEXITED st3"
    and x3: "WEXITSTATUS st3 = 3"
    and scr: "wait_script env =
      Reported child_pid st1 # Reported child_pid st2 # Reported child_pid st3 # rest"
  let ?stops = "[Reported child_pid st1, Reported child_pid st2]"
  have "list_all (stop_event child_pid) ?stops"
    using s1 s2 by (simp add: stop_event_def)
  moreover have "wait_script env = ?stops @ Reported child_pid st3 # rest"
    using scr by simp
  moreover have "\<not> WIFSTOPPED st3"
    using e3 by (rule WIFEXITED_not_WIFSTOPPED)
  ultimately have "wait_child child_pid (self_pid env) status0 env =
      Some (st3, env\<lparr>wait_script := rest,
                      kills := kills env @ stop_cycles (self_pid env) child_pid ?stops\<rparr>)"
    by (rule wait_child_stops)
  with e3 x3 show ?thesis
    by (simp add: continueAsChild_def stop_cycles_def Let_def)
qed

theorem continueAsChild_two_stops_then_exit_3_witness:
  "WIFSTOPPED 0x137f \<and> WIFSTOPPED 0x147f \<and> WIFEXITED 0x300 \<and> WEXITSTATUS 0x300 = 3
   \<and> continueAsChild 101 0 two_stops_exit_3 =
       Some (Returns 3,
             two_stops_exit_3
               \<lparr>wait_script := [],
                kills := [(100, SIGSTOP), (101, SIGCONT), (100, SIGSTOP), (101, SIGCONT)]\<rparr>)"
proof -
  have a: "WIFSTOPPED 0x137f" and b: "WIFSTOPPED 0x147f" and c: "WIFEXITED 0x300"
    and d: "WEXITSTATUS 0x300 = 3"
    by (simp_all add: WIFSTOPPED_def WIFEXITED_def WEXITSTATUS_def WTERMSIG_def)
  have e: "wait_script two_stops_exit_3 =
      Reported 101 0x137f # Reported 101 0x147f # Reported 101 0x300 # []"
    by (simp add: two_stops_exit_3_def)
  from continueAsChild_two_stops_then_exit_3 [OF a b c d e, of 0]
  have "continueAsChild 101 0 two_stops_exit_3 =
       Some (Returns 3,
             two_stops_exit_3
               \<lparr>wait_script := [],
                kills := [(100, SIGSTOP), (101, SIGCONT), (100, SIGSTOP), (101, SIGCONT)]\<rparr>)"
    by (simp add: two_stops_exit_3_def)
  with a b c d show ?thesis
    by (intro conjI)
qed




section \<open>Properties of the namespace set\<close>

lemma connectns_fail_usr:
  "\<not> setns_ok p (trace p) (usr_fd ns) CLONE_NEWUSER \<Longrightarrow>
     connectns ns p =
       (Inl (Fatal ''Failed to set user namespace''),
        exit_process (p\<lparr>trace := trace p @ [(Setns (usr_fd ns) CLONE_NEWUSER, -1)]\<rparr>))"
  by (simp add: connectns_def connect_usr_ns_def sys_setns_def jassert_fail_def)

lemma connectns_fail_mnt:
  "setns_ok p (trace p) (usr_fd ns) CLONE_NEWUSER \<Longrightarrow>
   \<not> setns_ok p (trace p @ [(Setns (usr_fd ns) CLONE_NEWUSER, 0)]) (mnt_fd ns) CLONE_NEWNS \<Longrightarrow>
     connectns ns p =
       (Inl (Fatal ''Failed to set mount namespace''),
        exit_process (p\<lparr>trace := trace p @ [(Setns (usr_fd ns) CLONE_NEWUSER, 0),
                                              (Setns (mnt_fd ns) CLONE_NEWNS, -1)]\<rparr>))"
  by (simp add: connectns_def connect_usr_ns_def connect_mnt_ns_def sys_setns_def jassert_fail_def)

lemma connectns_fail_pid:
  "setns_ok p (trace p) (usr_fd ns) CLONE_NEWUSER \<Longrightarrow>
   setns_ok p (trace p @ [(Setns (usr_fd ns) CLONE_NEWUSER, 0)]) (mnt_fd ns) CLONE_NEWNS \<Longrightarrow>
   \<not> setns_ok p (trace p @ [(Setns (usr_fd ns) CLONE_NEWUSER, 0), (Setns (mnt_fd ns) CLONE_NEWNS, 0)])
        (pid_fd ns) CLONE_NEWPID \<Longrightarrow>
     connectns ns p =
       (Inl (Fatal ''Failed to set pid namespace''),
        exit_process (p\<lparr>trace := trace p @ [(Setns (usr_fd ns) CLONE_NEWUSER, 0),
                                              (Setns (mnt_fd ns) CLONE_NEWNS, 0),
                                              (Setns (pid_fd ns) CLONE_NEWPID, -1)]\<rparr>))"
  by (simp add: connectns_def connect_usr_ns_def connect_mnt_ns_def connect_pid_ns_def
      sys_setns_def jassert_fail_def)

lemma connectns_ok:
  "setns_ok p (trace p) (usr_fd ns) CLONE_NEWUSER \<Longrightarrow>
   setns_ok p (trace p @ [(Setns (usr_fd ns) CLONE_NEWUSER, 0)]) (mnt_fd ns) CLONE_NEWNS \<Longrightarrow>
   setns_ok p (trace p @ [(Setns (usr_fd ns) CLONE_NEWUSER, 0), (Setns (mnt_fd ns) CLONE_NEWNS, 0)])
        (pid_fd ns) CLONE_NEWPID \<Longrightarrow>
     connectns ns p =
       (Inr (),
        p\<lparr>trace := trace p @ [(Setns (usr_fd ns) CLONE_NEWUSER, 0),
                                (Setns (mnt_fd ns) CLONE_NEWNS, 0),
                                (Setns (pid_fd ns) CLONE_NEWPID, 0)]\<rparr>)"
  by (simp add: connectns_def connect_usr_ns_def connect_mnt_ns_def connect_pid_ns_def
      sys_setns_def jassert_fail_def)

text \<open>
  C8. Every call of \<open>connectns\<close> adds to the trace of system calls a
  non-empty beginning of the three joins user, mount, pid, in that order, and
  nothing else. Every join before the last one made has succeeded. The call
  succeeds exactly when all three were made and the last one succeeded;
  otherwise the last join made has failed, the result is a fatal error and the
  process has terminated.
\<close>

theorem connectns_fixed_order:
  "\<exists>rs. trace (snd (connectns ns p)) = trace p @ rs
        \<and> rs \<noteq> [] \<and> prefix (map fst rs) (joins ns)
        \<and> list_all (\<lambda>r. snd r = 0) (butlast rs)
        \<and> (fst (connectns ns p) = Inr ()) = (map fst rs = joins ns \<and> snd (last rs) = 0)
        \<and> (fst (connectns ns p) \<noteq> Inr () \<longrightarrow>
             (\<exists>msg. fst (connectns ns p) = Inl (Fatal msg))
             \<and> \<not> running (snd (connectns ns p)) \<and> snd (last rs) = -1)"
proof (cases "setns_ok p (trace p) (usr_fd ns) CLONE_NEWUSER")
  case False
  then show ?thesis
    by (intro exI [of _ "[(Setns (usr_fd ns) CLONE_NEWUSER, -1)]"])
      (simp add: connectns_fail_usr exit_process_def joins_def)
next
  case u: True
  show ?thesis
  proof (cases "setns_ok p (trace p @ [(Setns (usr_fd ns) CLONE_NEWUSER, 0)]) (mnt_fd ns) CLONE_NEWNS")
    case False
    with u show ?thesis
      by (intro exI [of _ "[(Setns (usr_fd ns) CLONE_NEWUSER, 0), (Setns (mnt_fd ns) CLONE_NEWNS, -1)]"])
        (simp add: connectns_fail_mnt exit_process_def joins_def)
  next
    case m: True
    show ?thesis
    proof (cases "setns_ok p (trace p @ [(Setns (usr_fd ns) CLONE_NEWUSER, 0),
        (Setns (mnt_fd ns) CLONE_NEWNS, 0)]) (pid_fd ns) CLONE_NEWPID")
      case False
      with u m show ?thesis
        by (intro exI [of _ "[(Setns (usr_fd ns) CLONE_NEWUSER, 0), (Setns (mnt_fd ns) CLONE_NEWNS, 0),
              (Setns (pid_fd ns) CLONE_NEWPID, -1)]"])
          (simp add: connectns_fail_pid exit_process_def joins_def)
    next
      case True
      with u m show ?thesis
        by (intro exI [of _ "[(Setns (usr_fd ns) CLONE_NEWUSER, 0), (Setns (mnt_fd ns) CLONE_NEWNS, 0),
              (Setns (pid_fd ns) CLONE_NEWPID, 0)]"])
          (simp add: connectns_ok joins_def)
    qed
  qed
qed


theorem connectns_fixed_order_witness:
  "fst (connectns \<lparr>usr_fd = 3, mnt_fd = 4, pid_fd = 5\<rparr> process0) = Inr ()
   \<and> map fst (trace (snd (connectns \<lparr>usr_fd = 3, mnt_fd = 4, pid_fd = 5\<rparr> process0)))
       = [Setns 3 CLONE_NEWUSER, Setns 4 CLONE_NEWNS, Setns 5 CLONE_NEWPID]
   \<and> connectns \<lparr>usr_fd = 3, mnt_fd = 4, pid_fd = 5\<rparr> mnt_refused
       = (Inl (Fatal ''Failed to set mount namespace''),
          exit_process (mnt_refused\<lparr>trace := [(Setns 3 CLONE_NEWUSER, 0), (Setns 4 CLONE_NEWNS, -1)]\<rparr>))"
proof -
  let ?ns = "\<lparr>usr_fd = 3, mnt_fd = 4, pid_fd = 5\<rparr>"
  have ok: "fst (connectns ?ns process0) = Inr ()"
    by (simp add: connectns_ok process0_def)
  from connectns_fixed_order [of ?ns process0] obtain rs
    where t: "trace (snd (connectns ?ns process0)) = trace process0 @ rs"
      and r: "(fst (connectns ?ns process0) = Inr ()) = (map fst rs = joins ?ns \<and> snd (last rs) = 0)"
    by blast
  from r ok have "map fst rs = joins ?ns"
    by simp
  with t have tr: "map fst (trace (snd (connectns ?ns process0)))
      = [Setns 3 CLONE_NEWUSER, Setns 4 CLONE_NEWNS, Setns 5 CLONE_NEWPID]"
    by (simp add: process0_def joins_def)
  have f: "connectns ?ns mnt_refused
       = (Inl (Fatal ''Failed to set mount namespace''),
          exit_process (mnt_refused\<lparr>trace := [(Setns 3 CLONE_NEWUSER, 0), (Setns 4 CLONE_NEWNS, -1)]\<rparr>))"
    by (subst connectns_fail_mnt) (simp_all add: mnt_refused_def process0_def)
  from ok tr f show ?thesis
    by (intro conjI)
qed

lemma sys_open_ok:
  "open_ok p path \<Longrightarrow>
     sys_open path O_RDONLY p =
       (int (next_fd p),
        p\<lparr>fd_table := fd_table p @ [(int (next_fd p), path)], next_fd := Suc (next_fd p),
          trace := trace p @ [(Open path O_RDONLY, int (next_fd p))]\<rparr>)"
  by (simp add: sys_open_def)

lemma sys_open_fail:
  "\<not> open_ok p path \<Longrightarrow>
     sys_open path fl p = (-1, p\<lparr>trace := trace p @ [(Open path fl, -1)]\<rparr>)"
  by (simp add: sys_open_def)

lemma NamespaceSet_new_ok:
  "open_ok p (ns_filename pid ''user'') \<Longrightarrow> open_ok p (ns_filename pid ''mnt'') \<Longrightarrow>
   open_ok p (ns_filename pid ''pid'') \<Longrightarrow>
     fst (NamespaceSet_new pid p) =
       Inr \<lparr>usr_fd = int (next_fd p), mnt_fd = int (next_fd p) + 1, pid_fd = int (next_fd p) + 2\<rparr>
     \<and> fd_table (snd (NamespaceSet_new pid p)) =
         fd_table p @ [(int (next_fd p), ns_filename pid ''user''),
                       (int (next_fd p) + 1, ns_filename pid ''mnt''),
                       (int (next_fd p) + 2, ns_filename pid ''pid'')]
     \<and> running (snd (NamespaceSet_new pid p)) = running p"
  by (simp add: NamespaceSet_new_def sys_open_ok)

lemma NamespaceSet_new_fail:
  "\<not> (open_ok p (ns_filename pid ''user'') \<and> open_ok p (ns_filename pid ''mnt'')
      \<and> open_ok p (ns_filename pid ''pid'')) \<Longrightarrow>
     (\<exists>msg. fst (NamespaceSet_new pid p) = Inl (Fatal msg))
     \<and> fd_table (snd (NamespaceSet_new pid p)) = []
     \<and> \<not> running (snd (NamespaceSet_new pid p))"
proof (cases "open_ok p (ns_filename pid ''user'')")
  case False
  then show ?thesis
    by (simp add: NamespaceSet_new_def sys_open_fail jassert_fail_def exit_process_def)
next
  case u: True
  assume a: "\<not> (open_ok p (ns_filename pid ''user'') \<and> open_ok p (ns_filename pid ''mnt'')
      \<and> open_ok p (ns_filename pid ''pid''))"
  show ?thesis
  proof (cases "open_ok p (ns_filename pid ''mnt'')")
    case False
    with u show ?thesis
      by (simp add: NamespaceSet_new_def sys_open_ok sys_open_fail jassert_fail_def
          exit_process_def)
  next
    case True
    with u a have "\<not> open_ok p (ns_filename pid ''pid'')" by simp
    with u True show ?thesis
      by (simp add: NamespaceSet_new_def sys_open_ok sys_open_fail jassert_fail_def
          exit_process_def)
  qed
qed

text \<open>
  C9. If one of the three entries \<open>/proc/<pid>/ns/{user,mnt,pid}\<close> cannot
  be opened, the constructor ends in a fatal error: no \<open>NamespaceSet\<close>
  results, the process has terminated and holds no open descriptor. If all
  three can be opened, the set holds three descriptors that are open on the
  three entries.
\<close>

theorem NamespaceSet_new_all_or_nothing:
  "(open_ok p (ns_filename pid ''user'') \<and> open_ok p (ns_filename pid ''mnt'')
      \<and> open_ok p (ns_filename pid ''pid'') \<longrightarrow>
      fst (NamespaceSet_new pid p) =
        Inr \<lparr>usr_fd = int (next_fd p), mnt_fd = int (next_fd p) + 1, pid_fd = int (next_fd p) + 2\<rparr>
      \<and> fd_table (snd (NamespaceSet_new pid p)) =
          fd_table p @ [(int (next_fd p), ns_filename pid ''user''),
                        (int (next_fd p) + 1, ns_filename pid ''mnt''),
                        (int (next_fd p) + 2, ns_filename pid ''pid'')])
   \<and> (\<not> (open_ok p (ns_filename pid ''user'') \<and> open_ok p (ns_filename pid ''mnt'')
          \<and> open_ok p (ns_filename pid ''pid'')) \<longrightarrow>
        (\<exists>msg. fst (NamespaceSet_new pid p) = Inl (Fatal msg))
        \<and> fd_table (snd (NamespaceSet_new pid p)) = []
        \<and> \<not> running (snd (NamespaceSet_new pid p)))"
  using NamespaceSet_new_ok [of p pid] NamespaceSet_new_fail [of p pid]
  by blast

lemma ns_filename_1234:
  "ns_filename 1234 ''user'' = ''/proc/1234/ns/user''"
  "ns_filename 1234 ''mnt'' = ''/proc/1234/ns/mnt''"
  "ns_filename 1234 ''pid'' = ''/proc/1234/ns/pid''"
  by (simp_all add: ns_filename_def dec_int_def dec_nat.simps digit_def)

lemma NamespaceSet_new_mnt_missing:
  "NamespaceSet_new 1234 mnt_missing =
     (Inl (Fatal ''Failed to open mount namespace''),
      mnt_missing\<lparr>running := False, fd_table := [], next_fd := 4,
        trace := [(Open ''/proc/1234/ns/user'' O_RDONLY, 3), (Open ''/proc/1234/ns/mnt'' O_RDONLY, -1)]\<rparr>)"
  by (simp add: NamespaceSet_new_def ns_filename_1234 sys_open_def jassert_fail_def
      exit_process_def mnt_missing_def process0_def)

theorem NamespaceSet_new_all_or_nothing_witness:
  "\<not> open_ok mnt_missing (ns_filename 1234 ''mnt'')
   \<and> fst (NamespaceSet_new 1234 mnt_missing) = Inl (Fatal ''Failed to open mount namespace'')
   \<and> fd_table (snd (NamespaceSet_new 1234 mnt_missing)) = []
   \<and> fst (NamespaceSet_new 1234 process0) = Inr \<lparr>usr_fd = 3, mnt_fd = 4, pid_fd = 5\<rparr>"
proof -
  have m: "\<not> open_ok mnt_missing (ns_filename 1234 ''mnt'')"
    by (simp add: mnt_missing_def process0_def ns_filename_1234)
  note t = NamespaceSet_new_all_or_nothing [of mnt_missing 1234]
  from t m have e: "fd_table (snd (NamespaceSet_new 1234 mnt_missing)) = []"
    by blast
  have f: "fst (NamespaceSet_new 1234 mnt_missing) = Inl (Fatal ''Failed to open mount namespace'')"
    by (simp add: NamespaceSet_new_mnt_missing)
  have o: "open_ok process0 (ns_filename 1234 ''user'') \<and> open_ok process0 (ns_filename 1234 ''mnt'')
      \<and> open_ok process0 (ns_filename 1234 ''pid'')"
    by (simp add: process0_def)
  have n: "next_fd process0 = 3"
    by (simp add: process0_def)
  from NamespaceSet_new_all_or_nothing [of process0 1234] o
  have "fst (NamespaceSet_new 1234 process0) =
      Inr \<lparr>usr_fd = int (next_fd process0), mnt_fd = int (next_fd process0) + 1,
           pid_fd = int (next_fd process0) + 2\<rparr>"
    by blast
  then have g: "fst (NamespaceSet_new 1234 process0) = Inr \<lparr>usr_fd = 3, mnt_fd = 4, pid_fd = 5\<rparr>"
    by (simp add: n)
  from m f e g show ?thesis
    by (intro conjI)
qed

section \<open>Properties of the port file\<close>

text \<open>
  C10. With a \<open>NULL\<close> or empty path \<open>writeCoordPortToFile\<close> returns the
  process unchanged, whatever the port: no system call is added to the trace,
  no file is created or changed, no descriptor is opened, no warning is
  logged.
\<close>

theorem writeCoordPortToFile_no_path:
  "portFile = None \<or> portFile = Some [] \<Longrightarrow> writeCoordPortToFile port portFile p = p"
  by (auto simp: writeCoordPortToFile_def)

theorem writeCoordPortToFile_no_path_witness:
  "writeCoordPortToFile 7779 None process0 = process0
   \<and> writeCoordPortToFile 7779 (Some []) process0 = process0"
  using writeCoordPortToFile_no_path [of None 7779 process0]
    writeCoordPortToFile_no_path [of "Some []" 7779 process0]
  by simp

text \<open>With a path the port is written in decimal; a failing \<open>open\<close> only logs a warning.\<close>

lemma writeCoordPortToFile_writes:
  "files (writeCoordPortToFile 7779 (Some ''port.txt'') process0) ''port.txt'' = Some ''7779''
   \<and> trace (writeCoordPortToFile 7779 (Some ''port.txt'') process0) =
       [(Open ''port.txt'' O_CREAT_WRONLY_TRUNC, 3), (Write 3 ''7779'', 4), (Fsync 3, 0), (Close 3, 0)]
   \<and> warnings (writeCoordPortToFile 7779 (Some ''port.txt'') process0) = []
   \<and> fd_table (writeCoordPortToFile 7779 (Some ''port.txt'') process0) = fd_table process0"
  by (simp add: writeCoordPortToFile_def sys_open_def JWARNING_def writeAll_def sys_fsync_def
      sys_close_def process0_def dec_int_def dec_nat.simps digit_def Let_def)

lemma writeCoordPortToFile_warns:
  "warnings (writeCoordPortToFile 7779 (Some ''port.txt'') (process0\<lparr>open_ok := (\<lambda>path. False)\<rparr>))
     = [''Failed to open port file.'']
   \<and> running (writeCoordPortToFile 7779 (Some ''port.txt'') (process0\<lparr>open_ok := (\<lambda>path. False)\<rparr>))"
  by (simp add: writeCoordPortToFile_def sys_open_def JWARNING_def writeAll_def sys_fsync_def
      sys_close_def process0_def dec_int_def dec_nat.simps digit_def Let_def)


end
